theory Spec2Isabelle
  imports Complex_Main "HOL-Library.Multiset"
begin

section \<open>Data model of \<open>gantt_helper.py\<close>\<close>

text \<open>
  One table of the TOML file (\<open>task\<close>, \<open>start\<close>, \<open>end\<close>, \<open>complete\<close>).  A calendar
  date is its proleptic Gregorian ordinal, the value of \<open>datetime.date.toordinal()\<close>, so
  that the difference of two dates is the number of days between them and the order of
  dates is the order of integers.  The field \<open>end\<close> is called \<open>end_date\<close> here.
  Python floats are exact rationals.
\<close>

record toml_table =
  task :: string
  start :: int
  end_date :: int
  complete :: int

type_synonym rgba = "rat \<times> rat \<times> rat \<times> rat"

text \<open>A row of the table that \<open>cleaned_dataframe_data\<close> returns.\<close>

record row = toml_table +
  start_num :: int
  start_end :: int
  end_num :: int
  current_num :: rat
  color :: rgba
  uid :: nat

text \<open>\<open>Union[str, bool]\<close>, the type of the constructor arguments \<open>dir\<close> and \<open>fname\<close>.\<close>

datatype str_or_bool = Str string | Bool bool

record GanttHelper =
  src :: string
  dir :: str_or_bool
  fname :: str_or_bool
  sort_by_start :: bool
  x_ticks_num :: int
  fig_size :: "int \<times> int"

text \<open>The constructor, with its defaults for the arguments that are left out.\<close>

definition init :: "string \<Rightarrow> GanttHelper" where
  "init s = \<lparr>src = s, dir = Bool False, fname = Bool False, sort_by_start = True,
     x_ticks_num = 10, fig_size = (20, 5)\<rparr>"

datatype error = KeyError | AttributeError | ValueError | TypeError | NonFiniteStep

text \<open>Truth value of a \<open>Union[str, bool]\<close> in an \<open>if\<close>, and its rendering in an f-string.\<close>

fun truthy :: "str_or_bool \<Rightarrow> bool" where
  "truthy (Bool b) = b"
| "truthy (Str s) = (s \<noteq> [])"

fun py_str :: "str_or_bool \<Rightarrow> string" where
  "py_str (Str s) = s"
| "py_str (Bool True) = ''True''"
| "py_str (Bool False) = ''False''"

text \<open>\<open>datetime.date(y, m, d).toordinal()\<close>, to write calendar dates.\<close>

definition is_leap :: "int \<Rightarrow> bool" where
  "is_leap y = (y mod 4 = 0 \<and> (y mod 100 \<noteq> 0 \<or> y mod 400 = 0))"

definition days_before_year :: "int \<Rightarrow> int" where
  "days_before_year y = (y - 1) * 365 + (y - 1) div 4 - (y - 1) div 100 + (y - 1) div 400"

definition days_before_month :: "int \<Rightarrow> nat \<Rightarrow> int" where
  "days_before_month y m =
     [0, 0, 31, 59, 90, 120, 151, 181, 212, 243, 273, 304, 334] ! m
     + (if 2 < m \<and> is_leap y then 1 else 0)"

definition date :: "int \<Rightarrow> nat \<Rightarrow> int \<Rightarrow> int" where
  "date y m d = days_before_year y + days_before_month y m + d"

section \<open>The colour rule\<close>

definition to_color :: "int \<Rightarrow> rgba" where
  "to_color x =
     (if x = 100 then (3 / 10, 3 / 10, 3 / 10, 1)
      else if x < 100 \<and> x > 60 then (0, 1 / 2, 3 / 10, of_int x / 100)
      else (7 / 10, 0, 0, 8 / 10))"

section \<open>Building the table\<close>

text \<open>
  \<open>raw_dataframe_data\<close>: the values of the loaded mapping in file order, the record
  ids dropped.  \<open>DataFrame.sort_values(by='start')\<close> is a call into pandas with the
  default \<open>kind='quicksort'\<close>; it is the parameter \<open>sort_values\<close> of the model, and
  \<open>sort_values_by_start\<close> is what pandas documents of it for every kind: the rows are
  kept and come out in ascending order of the column.  An empty mapping gives a table
  without columns, on which \<open>sort_values\<close> raises \<open>KeyError\<close>.  \<open>reset_index\<close>
  renumbers the rows, which are the positions of the list.
\<close>

type_synonym sorter = "toml_table list \<Rightarrow> toml_table list"


definition raw_dataframe_data ::
  "sorter \<Rightarrow> GanttHelper \<Rightarrow> (string \<times> toml_table) list \<Rightarrow> error + toml_table list" where
  "raw_dataframe_data sort_values gh toml_data =
     (let df = map snd toml_data in
      if sort_by_start gh then
        (if df = [] then Inl KeyError else Inr (sort_values df))
      else Inr df)"

text \<open>\<open>Series.unique()\<close>: the distinct values in order of first appearance.\<close>

fun unique_from :: "'a list \<Rightarrow> 'a list \<Rightarrow> 'a list" where
  "unique_from seen [] = []"
| "unique_from seen (x # xs) =
     (if x \<in> set seen then unique_from seen xs else x # unique_from (x # seen) xs)"

definition unique :: "'a list \<Rightarrow> 'a list" where
  "unique xs = unique_from [] xs"

text \<open>\<open>list.index(x)\<close>: the first position of \<open>x\<close>, \<open>ValueError\<close> when it is absent.\<close>

fun index :: "'a list \<Rightarrow> 'a \<Rightarrow> error + nat" where
  "index [] x = Inl ValueError"
| "index (y # ys) x =
     (if y = x then Inr 0
      else case index ys x of Inl e \<Rightarrow> Inl e | Inr n \<Rightarrow> Inr (Suc n))"

definition unique_task_id :: "toml_table list \<Rightarrow> string \<Rightarrow> error + nat" where
  "unique_task_id df x = (let l = unique (map task df) in index l x)"

text \<open>\<open>Series.apply(f)\<close>: \<open>f\<close> on every value in turn; the first exception ends it.\<close>

fun apply_series :: "('a \<Rightarrow> error + 'b) \<Rightarrow> 'a list \<Rightarrow> error + 'b list" where
  "apply_series f [] = Inr []"
| "apply_series f (x # xs) =
     (case f x of
        Inl e \<Rightarrow> Inl e
      | Inr y \<Rightarrow> (case apply_series f xs of Inl e \<Rightarrow> Inl e | Inr ys \<Rightarrow> Inr (y # ys)))"

text \<open>
  One row of \<open>cleaned_dataframe_data\<close>: the columns \<open>start_num\<close>, \<open>start_end\<close>,
  \<open>end_num\<close>, \<open>current_num\<close> and \<open>color\<close> of the record \<open>r\<close>, where \<open>start_min\<close> is
  \<open>df.start.min()\<close>, and the \<open>uid\<close> that \<open>unique_task_id\<close> gave.
\<close>

definition derive :: "int \<Rightarrow> toml_table \<Rightarrow> nat \<Rightarrow> row" where
  "derive start_min r u =
     \<lparr>task = task r, start = start r, end_date = end_date r, complete = complete r,
      start_num = start r - start_min,
      start_end = end_date r - start r,
      end_num = (start r - start_min) + (end_date r - start r),
      current_num = of_int ((end_date r - start r) * complete r) / 100,
      color = to_color (complete r),
      uid = u\<rparr>"

text \<open>
  \<open>cleaned_dataframe_data\<close>.  A table without columns has no attribute \<open>task\<close> or
  \<open>start\<close>: \<open>AttributeError\<close>.
\<close>

definition cleaned_dataframe_data ::
  "sorter \<Rightarrow> GanttHelper \<Rightarrow> (string \<times> toml_table) list \<Rightarrow> error + row list" where
  "cleaned_dataframe_data sort_values gh toml_data =
     (case raw_dataframe_data sort_values gh toml_data of
        Inl e \<Rightarrow> Inl e
      | Inr df \<Rightarrow>
          if df = [] then Inl AttributeError
          else
            (case apply_series (unique_task_id df) (map task df) of
               Inl e \<Rightarrow> Inl e
             | Inr uids \<Rightarrow> Inr (map2 (derive (Min (set (map start df)))) df uids)))"

section \<open>Drawing the chart\<close>

text \<open>
  The figure is the list of the calls that \<open>plot\<close> makes into matplotlib, in the order
  in which it makes them, each with its arguments: \<open>Barh y width left color alpha\<close> has
  \<open>alpha = None\<close> when the call passes no \<open>alpha\<close>; a tick label is the \<open>strftime\<close>
  format with the date it is applied to.
\<close>

datatype artist =
    Style_use string
  | Rc_param string "string list"
  | Subplots "int \<times> int"
  | Barh "string list" "rat list" "int list" "rgba list" "rat option"
  | Text rat nat string
  | Set_xticks "rat list"
  | Set_xticklabels "(string \<times> int) list"
  | Title string
  | Savefig string

text \<open>\<open>str\<close> of an integer, for the percentage labels.\<close>

definition digit :: "nat \<Rightarrow> char" where
  "digit n = char_of (48 + n)"

function str_nat :: "nat \<Rightarrow> string" where
  "str_nat n = (if n < 10 then [digit n] else str_nat (n div 10) @ [digit (n mod 10)])"
  by pat_completeness auto
termination
  by (relation "measure id") auto

definition str_int :: "int \<Rightarrow> string" where
  "str_int i = (if i < 0 then CHR ''-'' # str_nat (nat (- i)) else str_nat (nat i))"

text \<open>
  The tick step \<open>(df.end_num.max() - df.start_num.min()) / x_ticks_num\<close>.  With
  \<open>x_ticks_num = 0\<close> numpy divides to \<open>inf\<close> or \<open>nan\<close>, which no rational is: the model
  stops there with \<open>NonFiniteStep\<close>.
\<close>

definition tick_step :: "row list \<Rightarrow> int \<Rightarrow> error + rat" where
  "tick_step df n =
     (if n = 0 then Inl NonFiniteStep
      else Inr (of_int (Max (set (map end_num df)) - Min (set (map start_num df))) / of_int n))"

text \<open>
  \<open>numpy.arange(a, b, s)\<close>: the values \<open>a + k * s\<close> for \<open>0 \<le> k < ceil((b - a) / s)\<close>; a
  zero step has no length (\<open>ValueError\<close>).
\<close>

definition np_arange :: "rat \<Rightarrow> rat \<Rightarrow> rat \<Rightarrow> error + rat list" where
  "np_arange a b s =
     (if s = 0 then Inl ValueError
      else Inr (map (\<lambda>k. a + of_nat k * s) [0..<nat \<lceil>(b - a) / s\<rceil>]))"

text \<open>
  \<open>pandas.date_range(s, e, n)\<close>, the third argument being \<open>periods\<close>: \<open>n\<close> instants
  linearly spaced from \<open>s\<close> to \<open>e\<close>, both included; a negative \<open>n\<close> is a \<open>ValueError\<close>.
  Each instant is given by the day it falls on, which is all that the format
  \<open>%Y-%m-%d\<close> prints of it.
\<close>

definition date_range :: "int \<Rightarrow> int \<Rightarrow> int \<Rightarrow> error + int list" where
  "date_range s e n =
     (if n < 0 then Inl ValueError
      else if n = 1 then Inr [s]
      else Inr (map (\<lambda>k. \<lfloor>of_int s + of_nat k * (of_int (e - s) / of_int (n - 1)) :: rat\<rfloor>)
                  [0..<nat n]))"

definition strftime :: "string \<Rightarrow> int list \<Rightarrow> (string \<times> int) list" where
  "strftime fmt ds = map (\<lambda>d. (fmt, d)) ds"

text \<open>
  The file system, as far as \<open>plot\<close> changes it: the directories and the files that
  exist.  \<open>os.makedirs(p, exist_ok=True)\<close> creates \<open>p\<close> and every missing directory
  above it and accepts those that exist; a path that is not a string is a \<open>TypeError\<close>.
\<close>

record filesystem =
  dirs :: "string set"
  files :: "string set"

fun path_ancestors :: "string \<Rightarrow> string \<Rightarrow> string list" where
  "path_ancestors pre [] = [pre]"
| "path_ancestors pre (c # cs) =
     (if c = CHR ''/'' \<and> pre \<noteq> [] then pre # path_ancestors (pre @ [c]) cs
      else path_ancestors (pre @ [c]) cs)"

definition os_makedirs :: "string \<Rightarrow> filesystem \<Rightarrow> filesystem" where
  "os_makedirs p fs = fs\<lparr>dirs := dirs fs \<union> set (path_ancestors [] p)\<rparr>"

definition output_path :: "GanttHelper \<Rightarrow> filesystem \<Rightarrow> (error + string) \<times> filesystem" where
  "output_path gh fs =
     (if truthy (dir gh) then
        (case dir gh of
           Str d \<Rightarrow> (Inr (d @ ''/'' @ py_str (fname gh) @ ''.png''), os_makedirs d fs)
         | Bool b \<Rightarrow> (Inl TypeError, fs))
      else (Inr (py_str (fname gh) @ ''.png''), fs))"

definition savefig :: "string \<Rightarrow> filesystem \<Rightarrow> filesystem" where
  "savefig p fs = fs\<lparr>files := insert p (files fs)\<rparr>"

text \<open>The two \<open>barh\<close> calls and the \<open>text\<close> calls of \<open>plot\<close>, in the order of the source.\<close>

definition bars :: "row list \<Rightarrow> artist list" where
  "bars df =
     [Barh (map task df) (map current_num df) (map start_num df) (map color df) None,
      Barh (map task df) (map (\<lambda>r. of_int (start_end r)) df) (map start_num df)
        (map color df) (Some (1 / 2))]"

definition texts :: "row list \<Rightarrow> artist list" where
  "texts df =
     map (\<lambda>r. Text (of_int (end_num r) + of_int (Max (set (map start_end df))) * (1 / 100))
                (uid r) (str_int (complete r) @ ''%'')) df"

text \<open>The argument of \<open>set_xticks\<close> and the argument of \<open>set_xticklabels\<close>.\<close>

definition xticks :: "GanttHelper \<Rightarrow> row list \<Rightarrow> error + rat list" where
  "xticks gh df =
     (case tick_step df (x_ticks_num gh) of
        Inl e \<Rightarrow> Inl e
      | Inr step \<Rightarrow> np_arange 0 (of_int (Max (set (map end_num df)))) step)"

definition xticklabels :: "GanttHelper \<Rightarrow> row list \<Rightarrow> error + (string \<times> int) list" where
  "xticklabels gh df =
     (case date_range (Min (set (map start df))) (Max (set (map end_date df))) (x_ticks_num gh) of
        Inl e \<Rightarrow> Inl e
      | Inr ds \<Rightarrow> Inr (strftime ''%Y-%m-%d'' ds))"

text \<open>
  \<open>plot\<close>: the exception raised, if any, the calls made into matplotlib until then, and
  the file system afterwards.
\<close>

record outcome =
  raised :: "error option"
  drawn :: "artist list"
  disk :: filesystem

definition plot ::
  "sorter \<Rightarrow> GanttHelper \<Rightarrow> (string \<times> toml_table) list \<Rightarrow> filesystem \<Rightarrow> outcome" where
  "plot sort_values gh toml_data fs =
     (case cleaned_dataframe_data sort_values gh toml_data of
        Inl e \<Rightarrow> \<lparr>raised = Some e, drawn = [], disk = fs\<rparr>
      | Inr df \<Rightarrow>
          (let d1 = [Style_use ''fivethirtyeight'',
                     Rc_param ''font.sans-serif'' [''Microsoft JhengHei''],
                     Subplots (fig_size gh)]
                    @ bars df @ texts df
           in case xticks gh df of
                Inl e \<Rightarrow> \<lparr>raised = Some e, drawn = d1, disk = fs\<rparr>
              | Inr ticks \<Rightarrow>
                  (let d2 = d1 @ [Set_xticks ticks]
                   in case xticklabels gh df of
                        Inl e \<Rightarrow> \<lparr>raised = Some e, drawn = d2, disk = fs\<rparr>
                      | Inr labels \<Rightarrow>
                          (let d3 = d2 @ [Set_xticklabels labels, Title (py_str (fname gh))]
                           in if truthy (fname gh) then
                                (case output_path gh fs of
                                   (Inl e, fs') \<Rightarrow> \<lparr>raised = Some e, drawn = d3, disk = fs'\<rparr>
                                 | (Inr p, fs') \<Rightarrow>
                                     \<lparr>raised = None, drawn = d3 @ [Savefig p],
                                      disk = savefig p fs'\<rparr>)
                              else \<lparr>raised = None, drawn = d3, disk = fs\<rparr>))))"

section \<open>Example inputs\<close>

text \<open>
  A file of three tables, two of them for the same task, and the single table of the
  docstring of \<open>toml_data\<close>, whose \<open>end\<close> lies before its \<open>start\<close>.  \<open>sample_rows\<close> is the
  table derived from the first.
\<close>

definition sample_toml :: "(string \<times> toml_table) list" where
  "sample_toml =
     [(''1'', \<lparr>task = ''A'', start = date 2018 6 27, end_date = date 2018 7 10, complete = 55\<rparr>),
      (''2'', \<lparr>task = ''B'', start = date 2018 6 20, end_date = date 2018 6 30, complete = 100\<rparr>),
      (''3'', \<lparr>task = ''A'', start = date 2018 6 25, end_date = date 2018 7 1, complete = 61\<rparr>)]"


definition sample_rows :: "row list" where
  "sample_rows =
     [\<lparr>task = ''B'', start = 736865, end_date = 736875, complete = 100,
         start_num = 0, start_end = 10, end_num = 10, current_num = 10,
         color = (3 / 10, 3 / 10, 3 / 10, 1), uid = 0\<rparr>,
      \<lparr>task = ''A'', start = 736870, end_date = 736876, complete = 61,
         start_num = 5, start_end = 6, end_num = 11, current_num = 183 / 50,
         color = (0, 1 / 2, 3 / 10, 61 / 100), uid = 1\<rparr>,
      \<lparr>task = ''A'', start = 736872, end_date = 736885, complete = 55,
         start_num = 7, start_end = 13, end_num = 20,
         current_num = 143 / 20, color = (7 / 10, 0, 0, 4 / 5), uid = 1\<rparr>]"





definition empty_disk :: filesystem where
  "empty_disk = \<lparr>dirs = {}, files = {}\<rparr>"

section \<open>The derived table: lemmas\<close>

lemma apply_series_Inr: "apply_series f xs = Inr ys \<longleftrightarrow> map f xs = map Inr ys"
proof (induction xs arbitrary: ys)
  case Nil
  then show ?case by auto
next
  case (Cons x xs)
  show ?case
  proof (cases "f x")
    case (Inl e)
    then show ?thesis by (cases ys) auto
  next
    case fx: (Inr y)
    show ?thesis
    proof (cases "apply_series f xs")
      case (Inl e)
      with Cons.IH have "\<And>zs. map f xs \<noteq> map Inr zs" by auto
      with Inl fx show ?thesis by (cases ys) auto
    next
      case (Inr zs)
      with Cons.IH have "map f xs = map Inr zs" by auto
      with Inr fx show ?thesis by (cases ys) (auto simp: inj_map_eq_map)
    qed
  qed
qed


lemma set_unique_from: "set (unique_from seen xs) = set xs - set seen"
  by (induction seen xs rule: unique_from.induct) auto

lemma distinct_unique_from: "distinct (unique_from seen xs)"
  by (induction seen xs rule: unique_from.induct) (auto simp: set_unique_from)

lemma set_unique: "set (unique xs) = set xs"
  by (simp add: unique_def set_unique_from)

lemma distinct_unique: "distinct (unique xs)"
  by (simp add: unique_def distinct_unique_from)


lemma index_Inr: "index l x = Inr n \<Longrightarrow> n < length l \<and> l ! n = x \<and> (\<forall>m<n. l ! m \<noteq> x)"
proof (induction l arbitrary: n)
  case Nil
  then show ?case by simp
next
  case (Cons y ys)
  show ?case
  proof (cases "y = x")
    case True
    with Cons.prems show ?thesis by simp
  next
    case False
    with Cons.prems obtain k where k: "index ys x = Inr k" "n = Suc k"
      by (auto split: sum.splits)
    from Cons.IH [OF k(1)] False k(2) show ?thesis
      by (auto simp: nth_Cons split: nat.splits)
  qed
qed

lemma index_takeWhile: "index l x = Inr n \<Longrightarrow> n = length (takeWhile (\<lambda>y. y \<noteq> x) l)"
  by (induction l arbitrary: n) (auto split: sum.splits if_splits)

lemma unique_from_takeWhile:
  "x \<in> set xs \<Longrightarrow> x \<notin> set seen \<Longrightarrow>
   takeWhile (\<lambda>y. y \<noteq> x) (unique_from seen xs) = unique_from seen (takeWhile (\<lambda>y. y \<noteq> x) xs)"
  by (induction seen xs rule: unique_from.induct) auto

lemma length_unique_from: "length (unique_from seen xs) = card (set xs - set seen)"
  using distinct_card [OF distinct_unique_from, of seen xs] by (simp add: set_unique_from)

lemma index_unique_card:
  assumes "index (unique xs) x = Inr n"
  shows "n = card (set (takeWhile (\<lambda>y. y \<noteq> x) xs))"
proof -
  from index_Inr [OF assms] have "x \<in> set (unique xs)"
    by (metis nth_mem)
  then have x: "x \<in> set xs" by (simp add: set_unique)
  have "n = length (takeWhile (\<lambda>y. y \<noteq> x) (unique xs))"
    by (rule index_takeWhile [OF assms])
  also have "\<dots> = length (unique_from [] (takeWhile (\<lambda>y. y \<noteq> x) xs))"
    using unique_from_takeWhile [OF x, of "[]"] by (simp add: unique_def)
  also have "\<dots> = card (set (takeWhile (\<lambda>y. y \<noteq> x) xs))"
    by (simp add: length_unique_from)
  finally show ?thesis .
qed




lemma cleaned_Inr:
  assumes "cleaned_dataframe_data srt gh toml = Inr rows"
  shows "\<exists>df uids. raw_dataframe_data srt gh toml = Inr df \<and> df \<noteq> []
           \<and> map (unique_task_id df) (map task df) = map Inr uids
           \<and> rows = map2 (derive (Min (set (map start df)))) df uids"
  using assms
  by (auto simp: cleaned_dataframe_data_def apply_series_Inr split: sum.splits if_splits)



text \<open>The rows of the derived table, one by one.\<close>

lemma cleaned_nth:
  assumes "cleaned_dataframe_data srt gh toml = Inr rows"
  shows "\<exists>df. raw_dataframe_data srt gh toml = Inr df \<and> df \<noteq> []
    \<and> length rows = length df
    \<and> (\<forall>i<length df.
         \<exists>u. index (unique (map task df)) (task (df ! i)) = Inr u
           \<and> rows ! i = derive (Min (set (map start df))) (df ! i) u)"
proof -
  from cleaned_Inr [OF assms] obtain df uids where
    raw: "raw_dataframe_data srt gh toml = Inr df" "df \<noteq> []"
    and u: "map (unique_task_id df) (map task df) = map Inr uids"
    and rows: "rows = map2 (derive (Min (set (map start df)))) df uids"
    by blast
  from u have len: "length uids = length df"
    by (metis length_map)
  have "\<exists>u. index (unique (map task df)) (task (df ! i)) = Inr u
         \<and> rows ! i = derive (Min (set (map start df))) (df ! i) u" if "i < length df" for i
  proof -
    from u that len have "unique_task_id df (task (df ! i)) = Inr (uids ! i)"
      by (metis (no_types, lifting) length_map nth_map)
    with that len rows show ?thesis
      by (simp add: unique_task_id_def)
  qed
  with raw len rows show ?thesis
    by auto
qed

lemma derive_sel [simp]:
  "task (derive m r u) = task r" "start (derive m r u) = start r"
  "end_date (derive m r u) = end_date r" "complete (derive m r u) = complete r"
  "start_num (derive m r u) = start r - m" "start_end (derive m r u) = end_date r - start r"
  "end_num (derive m r u) = (start r - m) + (end_date r - start r)"
  "current_num (derive m r u) = of_int ((end_date r - start r) * complete r) / 100"
  "color (derive m r u) = to_color (complete r)" "uid (derive m r u) = u"
  by (simp_all add: derive_def)

lemma cleaned_columns:
  assumes "cleaned_dataframe_data srt gh toml = Inr rows"
  shows "\<exists>df. raw_dataframe_data srt gh toml = Inr df \<and> df \<noteq> []
    \<and> length rows = length df
    \<and> map task rows = map task df \<and> map start rows = map start df
    \<and> map end_date rows = map end_date df \<and> map complete rows = map complete df
    \<and> map start_num rows = map (\<lambda>r. start r - Min (set (map start df))) df
    \<and> map start_end rows = map (\<lambda>r. end_date r - start r) df
    \<and> map end_num rows = map (\<lambda>r. end_date r - Min (set (map start df))) df"
proof -
  from cleaned_nth [OF assms] obtain df where df: "raw_dataframe_data srt gh toml = Inr df"
    "df \<noteq> []" "length rows = length df"
    "\<forall>i<length df.
       \<exists>u. index (unique (map task df)) (task (df ! i)) = Inr u
         \<and> rows ! i = derive (Min (set (map start df))) (df ! i) u"
    by blast
  have "map task rows = map task df" "map start rows = map start df"
    "map end_date rows = map end_date df" "map complete rows = map complete df"
    "map start_num rows = map (\<lambda>r. start r - Min (set (map start df))) df"
    "map start_end rows = map (\<lambda>r. end_date r - start r) df"
    "map end_num rows = map (\<lambda>r. end_date r - Min (set (map start df))) df"
    using df(3,4) by (auto intro!: nth_equalityI)
  with df(1,2,3) show ?thesis by blast
qed




text \<open>The example inputs, evaluated.\<close>

lemma sample_cleaned:
  "cleaned_dataframe_data (sort_key start) (init ''gantt'') sample_toml = Inr sample_rows"
  by code_simp

section \<open>The chart: lemmas\<close>

lemma savefig_not_in_chart [simp]:
  "Savefig p \<notin> set (bars df)" "Savefig p \<notin> set (texts df)"
  by (auto simp: bars_def texts_def)

lemma plot_prefix:
  assumes "cleaned_dataframe_data srt gh toml = Inr rows"
  shows "take 5 (drawn (plot srt gh toml fs)) =
    [Style_use ''fivethirtyeight'', Rc_param ''font.sans-serif'' [''Microsoft JhengHei''],
     Subplots (fig_size gh)] @ bars rows"
  using assms
  by (simp add: plot_def Let_def bars_def split: sum.splits prod.splits)

lemma plot_no_save:
  assumes "\<not> truthy (fname gh)"
  shows "disk (plot srt gh toml fs) = fs \<and> Savefig p \<notin> set (drawn (plot srt gh toml fs))"
  using assms
  by (simp add: plot_def Let_def split: sum.splits)

lemma sample_plot_raised:
  "raised (plot (sort_key start) (init ''gantt'') sample_toml
     \<lparr>dirs = {''Images''}, files = {''Images/Gantt.png''}\<rparr>) = None"
  by code_simp



lemma cleaned_raw:
  "cleaned_dataframe_data srt gh toml = Inr rows \<Longrightarrow> \<exists>df. raw_dataframe_data srt gh toml = Inr df"
  by (simp add: cleaned_dataframe_data_def split: sum.splits)







lemma uid_index:
  assumes "cleaned_dataframe_data srt gh toml = Inr rows" and "i < length rows"
  shows "index (unique (map task rows)) (task (rows ! i)) = Inr (uid (rows ! i))"
proof -
  from cleaned_raw [OF assms(1)] obtain df where raw: "raw_dataframe_data srt gh toml = Inr df" ..
  from cleaned_nth [OF assms(1)] raw have len: "length rows = length df"
    and nth: "\<forall>i<length df. \<exists>u. index (unique (map task df)) (task (df ! i)) = Inr u
               \<and> rows ! i = derive (Min (set (map start df))) (df ! i) u"
    by simp_all
  from nth assms(2) len obtain u where u: "index (unique (map task df)) (task (df ! i)) = Inr u"
    "rows ! i = derive (Min (set (map start df))) (df ! i) u"
    by auto
  have "map task rows = map task df"
  proof (rule nth_equalityI)
    show "length (map task rows) = length (map task df)" using len by simp
    fix k assume "k < length (map task rows)"
    with len nth show "map task rows ! k = map task df ! k" by auto
  qed
  with u show ?thesis by simp
qed





lemma barh_only:
  assumes "cleaned_dataframe_data srt gh toml = Inr rows"
    and "Barh y w l c a \<in> set (drawn (plot srt gh toml fs))"
  shows "Barh y w l c a \<in> set (bars rows)"
  using assms
  by (auto simp: plot_def Let_def texts_def split: sum.splits prod.splits if_splits)


section \<open>The colour rule: claims\<close>

text \<open>
  C1: \<open>to_color\<close> is a total function of the \<open>complete\<close> value alone: gray
  \<open>(0.3, 0.3, 0.3, 1)\<close> at exactly 100, green \<open>(0, 0.5, 0.3, x/100)\<close> strictly between 60
  and 100, and red \<open>(0.7, 0, 0, 0.8)\<close> for every other value; so 60, 0, every negative
  value and every value above 100 are red.
\<close>

theorem to_color_cases:
  "(x = 100 \<longrightarrow> to_color x = (3 / 10, 3 / 10, 3 / 10, 1))
   \<and> (60 < x \<and> x < 100 \<longrightarrow> to_color x = (0, 1 / 2, 3 / 10, of_int x / 100))
   \<and> (x \<noteq> 100 \<and> \<not> (60 < x \<and> x < 100) \<longrightarrow> to_color x = (7 / 10, 0, 0, 8 / 10))
   \<and> (x = 60 \<or> x = 0 \<or> x < 0 \<or> 100 < x \<longrightarrow> to_color x = (7 / 10, 0, 0, 8 / 10))"
  by (auto simp: to_color_def)

theorem to_color_cases_witness:
  "to_color 100 = (3 / 10, 3 / 10, 3 / 10, 1)
   \<and> to_color 61 = (0, 1 / 2, 3 / 10, 61 / 100)
   \<and> to_color 60 = (7 / 10, 0, 0, 8 / 10)
   \<and> to_color 0 = (7 / 10, 0, 0, 8 / 10)
   \<and> to_color (- 5) = (7 / 10, 0, 0, 8 / 10)
   \<and> to_color 101 = (7 / 10, 0, 0, 8 / 10)"
  using to_color_cases [of 100] to_color_cases [of 61] to_color_cases [of 60]
    to_color_cases [of 0] to_color_cases [of "- 5"] to_color_cases [of 101]
  by simp

section \<open>The derived table: claims\<close>






text \<open>
  C6: \<open>unique (map task rows)\<close> is the list of the distinct task labels of the table in
  its final row order, and the \<open>uid\<close> of a row is the position of the row's label in it.
  That position is the number of distinct labels that occur above the first row with this
  label: the first distinct label gets 0, the next one 1, and so on.  Two rows have the
  same \<open>uid\<close> exactly when they have the same label.
\<close>

theorem uid_first_seen:
  assumes "cleaned_dataframe_data sort_values gh toml_data = Inr rows" and "i < length rows"
  shows "distinct (unique (map task rows))
    \<and> set (unique (map task rows)) = set (map task rows)
    \<and> uid (rows ! i) < length (unique (map task rows))
    \<and> unique (map task rows) ! uid (rows ! i) = task (rows ! i)
    \<and> uid (rows ! i) = card (set (takeWhile (\<lambda>t. t \<noteq> task (rows ! i)) (map task rows)))
    \<and> (\<forall>j<length rows. uid (rows ! j) = uid (rows ! i) \<longleftrightarrow> task (rows ! j) = task (rows ! i))"
proof -
  from cleaned_nth [OF assms(1)] obtain df where
    len: "length rows = length df"
    and nth: "\<forall>i<length df. \<exists>u. index (unique (map task df)) (task (df ! i)) = Inr u
               \<and> rows ! i = derive (Min (set (map start df))) (df ! i) u"
    by blast
  from cleaned_columns [OF assms(1)] cleaned_nth [OF assms(1)]
  have "\<exists>df. map task rows = map task df \<and> length rows = length df
    \<and> (\<forall>i<length df. \<exists>u. index (unique (map task df)) (task (df ! i)) = Inr u
               \<and> rows ! i = derive (Min (set (map start df))) (df ! i) u)"
    by (metis sum.inject(2))
  then have ix: "index (unique (map task rows)) (task (rows ! k)) = Inr (uid (rows ! k))"
    if "k < length rows" for k
    using that by (metis derive_sel(1) derive_sel(10))
  have pos: "uid (rows ! k) < length (unique (map task rows))
      \<and> unique (map task rows) ! uid (rows ! k) = task (rows ! k)
      \<and> uid (rows ! k) = card (set (takeWhile (\<lambda>t. t \<noteq> task (rows ! k)) (map task rows)))"
    if "k < length rows" for k
    using index_Inr [OF ix [OF that]] index_unique_card [OF ix [OF that]] by simp
  have "uid (rows ! j) = uid (rows ! i) \<longleftrightarrow> task (rows ! j) = task (rows ! i)"
    if "j < length rows" for j
    using pos [OF that] pos [OF assms(2)] by metis
  then have eq: "\<forall>j<length rows. uid (rows ! j) = uid (rows ! i) \<longleftrightarrow> task (rows ! j) = task (rows ! i)"
    by blast
  have d: "distinct (unique (map task rows))" by (rule distinct_unique)
  have st: "set (unique (map task rows)) = set (map task rows)" by (rule set_unique)
  from d st pos [OF assms(2)] eq show ?thesis by blast
qed

theorem uid_first_seen_witness:
  "cleaned_dataframe_data (sort_key start) (init ''gantt'') sample_toml = Inr sample_rows
   \<and> map task sample_rows = [''B'', ''A'', ''A'']
   \<and> map uid sample_rows = [0, 1, 1]
   \<and> unique (map task sample_rows) ! uid (sample_rows ! 2) = ''A''"
  using uid_first_seen [OF sample_cleaned, of 2] sample_cleaned
  by (simp add: sample_rows_def)

section \<open>Sorting by start date: claims\<close>




section \<open>The chart: claims\<close>

text \<open>
  C10: with no output file name (\<open>fname = False\<close>, and \<open>dir = False\<close>), \<open>plot\<close> never calls
  \<open>savefig\<close> and leaves the file system as it found it, whatever the tables are and
  whether or not it raises: no file is written and no directory is created.
\<close>

theorem plot_without_fname:
  assumes "fname gh = Bool False" and "dir gh = Bool False"
  shows "disk (plot sort_values gh toml_data fs) = fs
    \<and> (\<forall>p. Savefig p \<notin> set (drawn (plot sort_values gh toml_data fs)))"
  using plot_no_save [of gh sort_values toml_data fs] assms by simp

theorem plot_without_fname_witness:
  "fname (init ''gantt'') = Bool False \<and> dir (init ''gantt'') = Bool False
   \<and> raised (plot (sort_key start) (init ''gantt'') sample_toml
        \<lparr>dirs = {''Images''}, files = {''Images/Gantt.png''}\<rparr>) = None
   \<and> disk (plot (sort_key start) (init ''gantt'') sample_toml
        \<lparr>dirs = {''Images''}, files = {''Images/Gantt.png''}\<rparr>)
       = \<lparr>dirs = {''Images''}, files = {''Images/Gantt.png''}\<rparr>"
proof -
  have f: "fname (init ''gantt'') = Bool False" and d: "dir (init ''gantt'') = Bool False"
    by (simp_all add: init_def)
  from plot_without_fname [OF f d] sample_plot_raised f d show ?thesis
    by blast
qed





text \<open>
  C3 (as amended): the first \<open>barh\<close> call of \<open>plot\<close> draws, for the rows in order, bars of
  length \<open>current_num\<close> with left offset \<open>start_num\<close> in the row's colour and without an
  opacity argument; the second draws bars of length \<open>start_end\<close> with the same offsets and
  colours at opacity 0.5, so this one is drawn after, over the first.  These are the only
  bars.  Both calls place a row by its task label, and the position of the label among
  the distinct labels, in order of first appearance, is the row's \<open>uid\<close>.
\<close>

theorem plot_bars:
  assumes "cleaned_dataframe_data sort_values gh toml_data = Inr rows"
  shows "drawn (plot sort_values gh toml_data fs) ! 3 =
       Barh (map task rows) (map current_num rows) (map start_num rows) (map color rows) None
    \<and> drawn (plot sort_values gh toml_data fs) ! 4 =
       Barh (map task rows) (map (\<lambda>r. of_int (start_end r)) rows) (map start_num rows)
         (map color rows) (Some (1 / 2))
    \<and> (\<forall>y w l c a. Barh y w l c a \<in> set (drawn (plot sort_values gh toml_data fs)) \<longrightarrow>
         Barh y w l c a = drawn (plot sort_values gh toml_data fs) ! 3
         \<or> Barh y w l c a = drawn (plot sort_values gh toml_data fs) ! 4)
    \<and> (\<forall>i<length rows.
         index (unique (map task rows)) (map task rows ! i) = Inr (uid (rows ! i)))"
proof -
  let ?d = "drawn (plot sort_values gh toml_data fs)"
  have "?d ! 3 = take 5 ?d ! 3" "?d ! 4 = take 5 ?d ! 4" by simp_all
  then have b: "?d ! 3 = bars rows ! 0" "?d ! 4 = bars rows ! 1"
    by (simp_all add: plot_prefix [OF assms])
  then have 1: "?d ! 3 =
       Barh (map task rows) (map current_num rows) (map start_num rows) (map color rows) None"
    and 2: "?d ! 4 =
       Barh (map task rows) (map (\<lambda>r. of_int (start_end r)) rows) (map start_num rows)
         (map color rows) (Some (1 / 2))"
    by (simp_all add: bars_def)
  have 3: "Barh y w l c a = ?d ! 3 \<or> Barh y w l c a = ?d ! 4"
    if "Barh y w l c a \<in> set ?d" for y w l c a
    using barh_only [OF assms that] unfolding 1 2 by (auto simp: bars_def)
  have 4: "index (unique (map task rows)) (map task rows ! i) = Inr (uid (rows ! i))"
    if "i < length rows" for i
    using uid_index [OF assms that] that by simp
  from 1 2 3 4 show ?thesis by blast
qed

theorem plot_bars_witness:
  "drawn (plot (sort_key start) (init ''gantt'') sample_toml empty_disk) ! 3 =
     Barh (map task sample_rows) (map current_num sample_rows) (map start_num sample_rows)
       (map color sample_rows) None
   \<and> drawn (plot (sort_key start) (init ''gantt'') sample_toml empty_disk) ! 4 =
     Barh (map task sample_rows) (map (\<lambda>r. of_int (start_end r)) sample_rows)
       (map start_num sample_rows) (map color sample_rows) (Some (1 / 2))"
  using plot_bars [OF sample_cleaned, of empty_disk] by blast

text \<open>
  C3 as it is stated has the bar of the completed part (Layer B, length \<open>current_num\<close>)
  drawn after the bar of the whole duration (Layer A, length \<open>start_end\<close>, opacity 0.5),
  and at opacity 1.  In the chart of \<open>sample_toml\<close> the \<open>current_num\<close> bars are call 3,
  with no opacity of their own, and the \<open>start_end\<close> bars are call 4, the later one.
\<close>

theorem bars_order_counterexample:
  "drawn (plot (sort_key start) (init ''gantt'') sample_toml empty_disk) ! 3 =
     Barh [''B'', ''A'', ''A''] [10, 183 / 50, 143 / 20] [0, 5, 7]
       [(3 / 10, 3 / 10, 3 / 10, 1), (0, 1 / 2, 3 / 10, 61 / 100), (7 / 10, 0, 0, 8 / 10)] None
   \<and> drawn (plot (sort_key start) (init ''gantt'') sample_toml empty_disk) ! 4 =
     Barh [''B'', ''A'', ''A''] [10, 6, 13] [0, 5, 7]
       [(3 / 10, 3 / 10, 3 / 10, 1), (0, 1 / 2, 3 / 10, 61 / 100), (7 / 10, 0, 0, 8 / 10)]
       (Some (1 / 2))
   \<and> map current_num sample_rows = [10, 183 / 50, 143 / 20]
   \<and> map start_end sample_rows = [10, 6, 13]"
  by code_simp





end
